theory Spec2Isabelle
  imports Main "HOL-Library.Word"
begin

section \<open>The working-copy update editor (update\_editor.c)\<close>

text \<open>
  A shallow embedding of the update editor of the working-copy library: the editor
  callbacks, the reference-counted bump information that decides when a directory is
  complete, the text-delta window handler, entry deletion, and the anchor/target
  resolver. Each C function becomes a HOL function of the same name. The batons that the
  C code mutates through pointers are passed in and returned; the edit baton, the bump
  records (allocated in the edit pool) and the working copy are threaded as one state.
\<close>

subsection \<open>Status codes, error chains and outcomes\<close>

text \<open>The error codes the editor raises or inspects; any other status is \<open>APR_OTHER\<close>.\<close>

datatype apr_status =
    SVN_ERR_WC_OBSTRUCTED_UPDATE
  | SVN_ERR_ENTRY_NOT_FOUND
  | SVN_ERR_ENTRY_MISSING_URL
  | SVN_ERR_UNSUPPORTED_FEATURE
  | SVN_ERR_WC_CORRUPT_TEXT_BASE
  | SVN_ERR_CHECKSUM_MISMATCH
  | SVN_ERR_WC_LEFT_LOCAL_MOD
  | SVN_ERR_CANCELLED
  | APR_ENOENT
  | APR_OTHER nat

text \<open>
  \<open>svn_error_t\<close>: a status and the wrapped (child) error. The message, file and line of
  the C struct carry no behaviour and are left out.
\<close>

datatype svn_error = Svn_error (apr_err: apr_status) (child: "svn_error option")

text \<open>
  What a call of an editor function does: it returns normally with a value, it returns an
  error (the state keeps every mutation made before the error), or the process stops
  (\<open>abort()\<close>, or a null pointer handed to a function that reads through it).
\<close>

datatype ('a, 's) outcome = Done 'a 's | Failed svn_error 's | Aborted

text \<open>The state a call leaves behind, when the process goes on.\<close>

definition outcome_state :: "('a, 's) outcome \<Rightarrow> 's option" where
  "outcome_state r = (case r of Done a s \<Rightarrow> Some s | Failed e s \<Rightarrow> Some s | Aborted \<Rightarrow> None)"

text \<open>The \<open>SVN_ERR\<close> macro: run the rest only when the call returned no error.\<close>

definition SVN_ERR :: "('a, 's) outcome \<Rightarrow> ('a \<Rightarrow> 's \<Rightarrow> ('b, 's) outcome) \<Rightarrow> ('b, 's) outcome" where
  "SVN_ERR m k = (case m of Done a s \<Rightarrow> k a s | Failed e s \<Rightarrow> Failed e s | Aborted \<Rightarrow> Aborted)"

text \<open>A query that does not change the state: its error is returned, its answer is passed on.\<close>

definition probe :: "svn_error + 'a \<Rightarrow> 's \<Rightarrow> ('a, 's) outcome" where
  "probe r s = (case r of Inl e \<Rightarrow> Failed e s | Inr a \<Rightarrow> Done a s)"

definition check :: "svn_error option \<Rightarrow> 's \<Rightarrow> (unit, 's) outcome" where
  "check r s = (case r of Some e \<Rightarrow> Failed e s | None \<Rightarrow> Done () s)"

subsection \<open>Working-copy data\<close>

datatype svn_node_kind = svn_node_none | svn_node_file | svn_node_dir | svn_node_unknown

datatype svn_wc_schedule =
  svn_wc_schedule_normal | svn_wc_schedule_add | svn_wc_schedule_delete | svn_wc_schedule_replace

text \<open>The fields of \<open>svn_wc_entry_t\<close> that the editor reads or writes.\<close>

record svn_wc_entry =
  entry_kind :: svn_node_kind
  entry_revision :: int
  entry_url :: "string option"
  entry_schedule :: svn_wc_schedule
  entry_deleted :: bool
  entry_incomplete :: bool
  entry_checksum :: "string option"

text \<open>
  The entries hash of a directory, keyed by entry name. An association list: the loop of
  \<open>complete_directory\<close> walks the hash, and the list order stands for the walk order.
\<close>

type_synonym entries = "(string \<times> svn_wc_entry) list"

definition apr_hash_get :: "(string \<times> 'v) list \<Rightarrow> string \<Rightarrow> 'v option" where
  "apr_hash_get h k = map_of h k"

definition svn_wc_entry_remove :: "entries \<Rightarrow> string \<Rightarrow> entries" where
  "svn_wc_entry_remove h k = filter (\<lambda>kv. fst kv \<noteq> k) h"

text \<open>\<open>svn_prop_t\<close>: a property name and its new value; no value (NULL) is a deletion.\<close>

record svn_prop =
  prop_name :: string
  prop_value :: "string option"

datatype svn_prop_kind = svn_prop_entry_kind | svn_prop_wc_kind | svn_prop_regular_kind

datatype svn_wc_notify_action =
    svn_wc_notify_update_add
  | svn_wc_notify_update_delete
  | svn_wc_notify_update_update
  | svn_wc_notify_update_completed

datatype svn_wc_notify_state =
    svn_wc_notify_state_inapplicable
  | svn_wc_notify_state_unknown
  | svn_wc_notify_state_unchanged
  | svn_wc_notify_state_changed
  | svn_wc_notify_state_merged
  | svn_wc_notify_state_conflicted

subsection \<open>Log commands\<close>

text \<open>
  \<open>svn_xml_make_open_tag\<close> appends one self-closing tag to the log buffer: a verb and its
  attributes in order. The tag and attribute names are the macros of log.h and entries.h.
\<close>

datatype log_verb =
    SVN_WC__LOG_MODIFY_ENTRY
  | SVN_WC__LOG_MODIFY_WCPROP
  | SVN_WC__LOG_DELETE_ENTRY

datatype log_attr =
    SVN_WC__LOG_ATTR_NAME
  | SVN_WC__LOG_ATTR_PROPNAME
  | SVN_WC__LOG_ATTR_PROPVAL
  | SVN_WC__ENTRY_ATTR_KIND
  | SVN_WC__ENTRY_ATTR_REVISION
  | SVN_WC__ENTRY_ATTR_DELETED
  | SVN_WC__ENTRY_ATTR_PROP_TIME
  | SVN_WC__ENTRY_ATTR_CMT_AUTHOR
  | SVN_WC__ENTRY_ATTR_CMT_REV
  | SVN_WC__ENTRY_ATTR_CMT_DATE
  | SVN_WC__ENTRY_ATTR_UUID

text \<open>
  Attribute values: a string, a revision number printed with \<open>SVN_REVNUM_T_FMT\<close>, or one
  of the string macros of the headers.
\<close>

datatype attr_value =
    Str string
  | Revnum_str int
  | SVN_WC__ENTRIES_ATTR_FILE_STR
  | SVN_WC__ENTRIES_ATTR_DIR_STR
  | SVN_WC_TIMESTAMP_WC

datatype log_command = Log_command (verb: log_verb) (attrs: "(log_attr \<times> attr_value) list")

subsection \<open>Batons\<close>

text \<open>\<open>svn_wc_traversal_info_t\<close>: the two hashes keyed by directory path.\<close>

record svn_wc_traversal_info =
  externals_old :: "string \<rightharpoonup> string"
  externals_new :: "string \<rightharpoonup> string"

text \<open>
  \<open>struct edit_baton\<close>. \<open>adm_access\<close> holds the path of the access baton;
  \<open>notify_func\<close> says whether a notification function is set. The cancellation function
  and the pool have no part in the functions below.
\<close>

record edit_baton =
  anchor :: string
  target :: "string option"
  adm_access :: "string option"
  target_revision :: int
  recurse :: bool
  use_commit_times :: bool
  root_opened :: bool
  target_deleted :: bool
  switch_url :: "string option"
  diff3_cmd :: "string option"
  traversal_info :: "svn_wc_traversal_info option"
  notify_func :: bool

text \<open>
  \<open>struct bump_dir_info\<close>. The records live in the edit pool; a pointer to one is its
  index in the list \<open>bump_infos\<close> of the state.
\<close>

record bump_dir_info =
  bdi_parent :: "nat option"
  bdi_ref_count :: int
  bdi_path :: string

text \<open>\<open>struct dir_baton\<close>; \<open>db_bump_info\<close> points into \<open>bump_infos\<close>.\<close>

datatype dir_baton = Dir_baton
  (db_path: string)
  (db_name: "string option")
  (db_new_URL: "string option")
  (db_parent_baton: "dir_baton option")
  (db_added: bool)
  (db_propchanges: "svn_prop list")
  (db_bump_info: nat)

text \<open>\<open>struct file_baton\<close>; the digest is the 16 bytes of an MD5 sum.\<close>

record file_baton =
  fb_name :: string
  fb_path :: string
  fb_new_URL :: "string option"
  fb_added :: bool
  text_changed :: bool
  prop_changed :: bool
  fb_propchanges :: "svn_prop list"
  last_changed_date :: "string option"
  fb_bump_info :: nat
  digest :: "8 word list"

text \<open>\<open>struct handler_baton\<close>: whether the source text-base is open; the file baton is passed beside it.\<close>

record handler_baton =
  hb_source :: bool

subsection \<open>Collaborators\<close>

text \<open>
  The changes \<open>svn_wc__entry_modify\<close> is asked to make: one per flag of its mask, with
  the value taken from the entry it is given.
\<close>

datatype entry_change =
    Modify_revision int
  | Modify_url "string option"
  | Modify_incomplete bool
  | Modify_kind svn_node_kind
  | Modify_deleted bool

text \<open>
  Every call that changes the working copy, tells the user, or completes a directory is
  appended to the trace of the state, so that theorems can say what a function did.
\<close>

datatype wc_event =
    Ev_notify string svn_wc_notify_action svn_node_kind svn_wc_notify_state svn_wc_notify_state "int option"
  | Ev_entries_write string entries
  | Ev_entry_modify string "string option" "entry_change list"
  | Ev_open_log string
  | Ev_write_log string "log_command list"
  | Ev_close_log string
  | Ev_run_log string
  | Ev_remove_file string
  | Ev_remove_from_revision_control string
  | Ev_merge_prop_diffs string
  | Ev_ensure_directory string
  | Ev_ensure_adm string
  | Ev_adm_open string
  | Ev_apply_window bool
  | Ev_close_text_base string
  | Ev_open_text_base string
  | Ev_install_file string
  | Ev_complete_directory nat

text \<open>The arguments \<open>close_file\<close> passes to \<open>install_file\<close>.\<close>

record install_args =
  ia_file_path :: string
  ia_new_revision :: int
  ia_new_text_path :: "string option"
  ia_props :: "svn_prop list option"
  ia_is_full_proplist :: bool
  ia_new_URL :: "string option"
  ia_is_add :: bool
  ia_copyfrom_url :: "string option"
  ia_copyfrom_rev :: int
  ia_diff3_cmd :: "string option"
  ia_timestamp_string :: "string option"

text \<open>
  The pure library functions and the string constants that the editor uses and that are
  declared outside update\_editor.c (svn\_path.h, svn\_md5.h, svn\_base64.h, svn\_props.h,
  wc.h, adm\_files.h). They are parameters of the embedding: every theorem holds for any
  choice of them. \<open>svn_md5_digest_to_cstring\<close> may return NULL.
\<close>

record svn_lib =
  svn_path_join :: "string \<Rightarrow> string \<Rightarrow> string"
  svn_path_basename :: "string \<Rightarrow> string"
  svn_path_dirname :: "string \<Rightarrow> string"
  svn_path_is_empty :: "string \<Rightarrow> bool"
  svn_path_url_add_component :: "string \<Rightarrow> string \<Rightarrow> string"
  svn_wc__adm_path_log :: "string \<Rightarrow> string"
  svn_wc__text_base_path :: "string \<Rightarrow> bool \<Rightarrow> string"
  svn_md5_digest_to_cstring :: "8 word list \<Rightarrow> string option"
  svn_base64_from_md5 :: "8 word list \<Rightarrow> string"
  svn_property_kind :: "string \<Rightarrow> svn_prop_kind"
  SVN_WC_ADM_DIR_NAME :: string
  SVN_WC_ENTRY_THIS_DIR :: string
  SVN_PROP_EXTERNALS :: string
  SVN_PROP_ENTRY_COMMITTED_DATE :: string
  SVN_PROP_ENTRY_LAST_AUTHOR :: string
  SVN_PROP_ENTRY_COMMITTED_REV :: string
  SVN_PROP_ENTRY_UUID :: string

text \<open>
  The collaborators that read or change the working copy \<open>'w\<close> (entries store, pristine
  store, log runner, property merge, delta application). They are parameters as well. A
  query returns its error or its answer; a call that changes the working copy returns its
  error, if any, and the new working copy. An access baton is named by its directory.
\<close>

record 'w wc_api =
  svn_io_check_path :: "string \<Rightarrow> 'w \<Rightarrow> svn_error + svn_node_kind"
  svn_wc_adm_retrieve :: "string \<Rightarrow> 'w \<Rightarrow> svn_error option"
  svn_wc_adm_probe_open :: "string \<Rightarrow> 'w \<Rightarrow> svn_error option"
  svn_wc_adm_close :: "string \<Rightarrow> 'w \<Rightarrow> svn_error option"
  svn_wc_entry :: "string \<Rightarrow> bool \<Rightarrow> 'w \<Rightarrow> svn_error + svn_wc_entry option"
  svn_wc_entries_read :: "string \<Rightarrow> bool \<Rightarrow> 'w \<Rightarrow> svn_error + entries"
  svn_wc__entries_write :: "entries \<Rightarrow> string \<Rightarrow> 'w \<Rightarrow> svn_error option \<times> 'w"
  svn_wc__entry_modify :: "string \<Rightarrow> string option \<Rightarrow> entry_change list \<Rightarrow> 'w \<Rightarrow> svn_error option \<times> 'w"
  svn_wc__adm_missing :: "string \<Rightarrow> 'w \<Rightarrow> bool"
  svn_wc_text_modified_p :: "string \<Rightarrow> 'w \<Rightarrow> svn_error + bool"
  svn_wc_props_modified_p :: "string \<Rightarrow> 'w \<Rightarrow> svn_error + bool"
  svn_wc_prop_get :: "string \<Rightarrow> string \<Rightarrow> 'w \<Rightarrow> svn_error + string option"
  svn_wc__open_adm_file :: "string \<Rightarrow> 'w \<Rightarrow> svn_error option \<times> 'w"
  apr_file_write_full :: "string \<Rightarrow> log_command list \<Rightarrow> 'w \<Rightarrow> apr_status option \<times> 'w"
  apr_file_close :: "string \<Rightarrow> 'w \<Rightarrow> 'w"
  svn_wc__close_adm_file :: "string \<Rightarrow> 'w \<Rightarrow> svn_error option \<times> 'w"
  svn_wc__run_log :: "string \<Rightarrow> string option \<Rightarrow> 'w \<Rightarrow> svn_error option \<times> 'w"
  svn_io_remove_file :: "string \<Rightarrow> 'w \<Rightarrow> svn_error option \<times> 'w"
  svn_wc_remove_from_revision_control :: "string \<Rightarrow> 'w \<Rightarrow> svn_error option \<times> 'w"
  svn_wc__merge_prop_diffs ::
    "string \<Rightarrow> string option \<Rightarrow> svn_prop list \<Rightarrow> 'w \<Rightarrow> (svn_error + svn_wc_notify_state \<times> log_command list) \<times> 'w"
  svn_wc__ensure_directory :: "string \<Rightarrow> 'w \<Rightarrow> svn_error option \<times> 'w"
  svn_wc_ensure_adm :: "string \<Rightarrow> string option \<Rightarrow> int \<Rightarrow> 'w \<Rightarrow> svn_error option \<times> 'w"
  svn_wc_adm_open :: "string option \<Rightarrow> string \<Rightarrow> 'w \<Rightarrow> svn_error option \<times> 'w"
  svn_io_file_checksum :: "string \<Rightarrow> 'w \<Rightarrow> svn_error + 8 word list"
  svn_wc__open_text_base :: "string \<Rightarrow> bool \<Rightarrow> 'w \<Rightarrow> (svn_error option \<times> bool) \<times> 'w"
  svn_wc__close_text_base :: "string \<Rightarrow> bool \<Rightarrow> 'w \<Rightarrow> svn_error option \<times> 'w"
  apr_file_remove :: "string \<Rightarrow> 'w \<Rightarrow> 'w"
  apply_handler :: "string option \<Rightarrow> 'w \<Rightarrow> (svn_error option \<times> 8 word list option) \<times> 'w"
  install_file :: "install_args \<Rightarrow> 'w \<Rightarrow> (svn_error + svn_wc_notify_state \<times> svn_wc_notify_state) \<times> 'w"

subsection \<open>The state of an edit\<close>

record 'w edit_state =
  eb :: edit_baton
  bump_infos :: "bump_dir_info list"
  wc :: 'w
  trace :: "wc_event list"

text \<open>A call of a collaborator that changes the working copy: the event is recorded.\<close>

definition perform :: "wc_event \<Rightarrow> ('w \<Rightarrow> 'r \<times> 'w) \<Rightarrow> 'w edit_state \<Rightarrow> 'r \<times> 'w edit_state" where
  "perform ev f st = (fst (f (wc st)), st\<lparr>wc := snd (f (wc st)), trace := trace st @ [ev]\<rparr>)"

definition call :: "wc_event \<Rightarrow> ('w \<Rightarrow> svn_error option \<times> 'w) \<Rightarrow> 'w edit_state \<Rightarrow> (unit, 'w edit_state) outcome" where
  "call ev f st = check (fst (perform ev f st)) (snd (perform ev f st))"

definition notify ::
  "string \<Rightarrow> svn_wc_notify_action \<Rightarrow> svn_node_kind \<Rightarrow> svn_wc_notify_state \<Rightarrow> svn_wc_notify_state \<Rightarrow> int option
     \<Rightarrow> 'w edit_state \<Rightarrow> 'w edit_state" where
  "notify p action kind cs ps revnum st =
     (if notify_func (eb st) then st\<lparr>trace := trace st @ [Ev_notify p action kind cs ps revnum]\<rparr> else st)"

text \<open>
  A later state continues an earlier one when the edit baton is the same and the trace has
  only grown. A call proceeds from a state when it does not stop the process and the state
  it leaves continues that state.
\<close>

definition continues :: "'w edit_state \<Rightarrow> 'w edit_state \<Rightarrow> bool" where
  "continues st st' = (eb st' = eb st \<and> take (length (trace st)) (trace st') = trace st)"

definition proceeds :: "'w edit_state \<Rightarrow> ('a, 'w edit_state) outcome \<Rightarrow> bool" where
  "proceeds st r = (case outcome_state r of Some st' \<Rightarrow> continues st st' | None \<Rightarrow> False)"

subsection \<open>Directory batons and bump information\<close>

text \<open>
  \<open>get_entry_url\<close>: the URL of \<open>name\<close> in \<open>dir\<close> (of \<open>dir\<close> itself when \<open>name\<close> is
  NULL), or NULL when the access baton, the entry or its URL is missing.
\<close>

definition get_entry_url :: "svn_lib \<Rightarrow> 'w wc_api \<Rightarrow> string \<Rightarrow> string option \<Rightarrow> 'w \<Rightarrow> string option" where
  "get_entry_url lib api dir name w =
     (case svn_wc_adm_retrieve api dir w of
        Some e \<Rightarrow> None
      | None \<Rightarrow>
          (case svn_wc_entry api (case name of None \<Rightarrow> dir | Some n \<Rightarrow> svn_path_join lib dir n) False w of
             Inl e \<Rightarrow> None
           | Inr None \<Rightarrow> None
           | Inr (Some entry) \<Rightarrow> entry_url entry))"

text \<open>
  \<open>svn_path_url_add_component\<close> reads through its first argument: a NULL URL stops the
  process.
\<close>

definition url_add_component :: "svn_lib \<Rightarrow> string option \<Rightarrow> string \<Rightarrow> 's \<Rightarrow> (string option, 's) outcome" where
  "url_add_component lib url name s =
     (case url of None \<Rightarrow> Aborted | Some u \<Rightarrow> Done (Some (svn_path_url_add_component lib u name)) s)"

text \<open>The URL a new directory baton gets (the middle part of \<open>make_dir_baton\<close>).\<close>

definition dir_new_URL ::
  "svn_lib \<Rightarrow> 'w wc_api \<Rightarrow> string \<Rightarrow> string option \<Rightarrow> dir_baton option \<Rightarrow> 'w edit_state
     \<Rightarrow> (string option, 'w edit_state) outcome" where
  "dir_new_URL lib api d_path d_name pb st =
     (case switch_url (eb st) of
        Some su \<Rightarrow>
          (case pb of
             None \<Rightarrow>
               (if target (eb st) \<noteq> None then Done (Some su) st
                else Done (Some (svn_path_dirname lib su)) st)
           | Some p \<Rightarrow>
               (if db_parent_baton p = None then Done (Some su) st
                else (case d_name of
                        None \<Rightarrow> Aborted
                      | Some n \<Rightarrow> url_add_component lib (db_new_URL p) n st)))
      | None \<Rightarrow>
          (case get_entry_url lib api d_path None (wc st) of
             Some u \<Rightarrow> Done (Some u) st
           | None \<Rightarrow>
               (case pb of
                  None \<Rightarrow> Done None st
                | Some p \<Rightarrow>
                    (case d_name of
                       None \<Rightarrow> Aborted
                     | Some n \<Rightarrow> url_add_component lib (db_new_URL p) n st))))"

text \<open>
  The bump part of \<open>make_dir_baton\<close>: a new record with count 1 is allocated in the edit
  pool, and the parent's record, if any, gets one more referer. A parent pointer that is
  not a record of the pool stops the process.
\<close>

definition new_bump_info :: "string \<Rightarrow> nat option \<Rightarrow> bump_dir_info list \<Rightarrow> (nat \<times> bump_dir_info list) option" where
  "new_bump_info d_path parent_bdi infos =
     (let bdi = \<lparr>bdi_parent = parent_bdi, bdi_ref_count = 1, bdi_path = d_path\<rparr>;
          infos1 = infos @ [bdi]
      in case parent_bdi of
           None \<Rightarrow> Some (length infos, infos1)
         | Some p \<Rightarrow>
             (if p < length infos
              then Some (length infos,
                         infos1[p := (infos1 ! p)\<lparr>bdi_ref_count := bdi_ref_count (infos1 ! p) + 1\<rparr>])
              else None))"

definition make_dir_baton ::
  "svn_lib \<Rightarrow> 'w wc_api \<Rightarrow> string option \<Rightarrow> dir_baton option \<Rightarrow> bool \<Rightarrow> 'w edit_state
     \<Rightarrow> (dir_baton, 'w edit_state) outcome" where
  "make_dir_baton lib api path pb added st =
     (if pb \<noteq> None \<and> path = None then Aborted
      else
        let d_path = (case path of None \<Rightarrow> anchor (eb st) | Some p \<Rightarrow> svn_path_join lib (anchor (eb st)) p);
            d_name = (case path of None \<Rightarrow> None | Some p \<Rightarrow> Some (svn_path_basename lib p))
        in SVN_ERR (dir_new_URL lib api d_path d_name pb st) (\<lambda>new_URL st.
             (case new_bump_info d_path (map_option db_bump_info pb) (bump_infos st) of
                None \<Rightarrow> Aborted
              | Some (bdi, infos) \<Rightarrow>
                  Done (Dir_baton d_path d_name new_URL pb added [] bdi) (st\<lparr>bump_infos := infos\<rparr>))))"

text \<open>
  The loop of \<open>complete_directory\<close> over the entries hash: deleted entries are removed;
  so are entries of directories that are missing from disk and not scheduled for
  addition, with a notification.
\<close>

definition remove_if_missing_dir ::
  "svn_lib \<Rightarrow> 'w wc_api \<Rightarrow> string \<Rightarrow> string \<Rightarrow> svn_wc_entry \<Rightarrow> entries \<times> 'w edit_state \<Rightarrow> entries \<times> 'w edit_state" where
  "remove_if_missing_dir lib api path name current_entry es =
     (let child_path = svn_path_join lib path name
      in if svn_wc__adm_missing api child_path (wc (snd es)) \<and> entry_schedule current_entry \<noteq> svn_wc_schedule_add
         then (svn_wc_entry_remove (fst es) name,
               notify child_path svn_wc_notify_update_delete (entry_kind current_entry)
                 svn_wc_notify_state_unknown svn_wc_notify_state_unknown None (snd es))
         else es)"

fun remove_dead_entries ::
  "svn_lib \<Rightarrow> 'w wc_api \<Rightarrow> string \<Rightarrow> entries \<Rightarrow> entries \<times> 'w edit_state \<Rightarrow> entries \<times> 'w edit_state" where
  "remove_dead_entries lib api path [] es = es"
| "remove_dead_entries lib api path ((name, current_entry) # rest) es =
     remove_dead_entries lib api path rest
       (if entry_deleted current_entry then (svn_wc_entry_remove (fst es) name, snd es)
        else if entry_kind current_entry = svn_node_dir
             then remove_if_missing_dir lib api path name current_entry es
             else es)"

text \<open>The branch of \<open>complete_directory\<close> for the root of an edit that has a target.\<close>

definition complete_target ::
  "svn_lib \<Rightarrow> 'w wc_api \<Rightarrow> string \<Rightarrow> string \<Rightarrow> entries \<times> 'w edit_state \<Rightarrow> entries \<times> 'w edit_state" where
  "complete_target lib api path name es =
     (case apr_hash_get (fst es) name of
        None \<Rightarrow> es
      | Some current_entry \<Rightarrow>
          (if entry_deleted current_entry
           then (if \<not> target_deleted (eb (snd es)) then (svn_wc_entry_remove (fst es) name, snd es) else es)
           else if entry_kind current_entry = svn_node_dir
                then remove_if_missing_dir lib api path name current_entry es
                else es))"

definition complete_directory ::
  "svn_lib \<Rightarrow> 'w wc_api \<Rightarrow> string \<Rightarrow> bool \<Rightarrow> 'w edit_state \<Rightarrow> (unit, 'w edit_state) outcome" where
  "complete_directory lib api path is_root_dir st =
     SVN_ERR (check (svn_wc_adm_retrieve api path (wc st)) st) (\<lambda>_ st.
     SVN_ERR (probe (svn_wc_entries_read api path True (wc st)) st) (\<lambda>entries st.
       (case apr_hash_get entries (SVN_WC_ENTRY_THIS_DIR lib) of
          None \<Rightarrow> Failed (Svn_error SVN_ERR_ENTRY_NOT_FOUND None) st
        | Some entry \<Rightarrow>
            let entries1 = map (\<lambda>kv. if fst kv = SVN_WC_ENTRY_THIS_DIR lib
                                       then (fst kv, (snd kv)\<lparr>entry_incomplete := False\<rparr>) else kv) entries;
                es = (case (if is_root_dir then target (eb st) else None) of
                        Some name \<Rightarrow> complete_target lib api path name (entries1, st)
                      | None \<Rightarrow> remove_dead_entries lib api path entries1 (entries1, st))
            in call (Ev_entries_write path (fst es)) (svn_wc__entries_write api (fst es) path) (snd es))))"



subsection \<open>File batons\<close>

text \<open>The referer that \<open>make_file_baton\<close> adds to the bump record of the file's directory.\<close>

definition add_referer :: "nat \<Rightarrow> bump_dir_info list \<Rightarrow> bump_dir_info list option" where
  "add_referer i infos =
     (if i < length infos
      then Some (infos[i := (infos ! i)\<lparr>bdi_ref_count := bdi_ref_count (infos ! i) + 1\<rparr>])
      else None)"

definition make_file_baton ::
  "svn_lib \<Rightarrow> 'w wc_api \<Rightarrow> dir_baton \<Rightarrow> string option \<Rightarrow> bool \<Rightarrow> 'w edit_state
     \<Rightarrow> (file_baton, 'w edit_state) outcome" where
  "make_file_baton lib api pb path adding st =
     (case path of
        None \<Rightarrow> Aborted
      | Some p \<Rightarrow>
          let f_path = svn_path_join lib (anchor (eb st)) p;
              f_name = svn_path_basename lib p
          in SVN_ERR (if switch_url (eb st) \<noteq> None
                      then url_add_component lib (db_new_URL pb) f_name st
                      else Done (get_entry_url lib api (db_path pb) (Some f_name) (wc st)) st) (\<lambda>new_URL st.
               (case add_referer (db_bump_info pb) (bump_infos st) of
                  None \<Rightarrow> Aborted
                | Some infos \<Rightarrow>
                    Done \<lparr>fb_name = f_name, fb_path = f_path, fb_new_URL = new_URL, fb_added = adding,
                          text_changed = False, prop_changed = False, fb_propchanges = [],
                          last_changed_date = None, fb_bump_info = db_bump_info pb,
                          digest = replicate 16 0\<rparr>
                         (st\<lparr>bump_infos := infos\<rparr>))))"

subsection \<open>The window handler\<close>

text \<open>
  \<open>window_handler\<close>: the wrapper around the delta applier. A NULL window is the end of
  the stream. The inner handler may write the digest of the full text into the file baton.
  The result is the error returned, the file baton and the state.
\<close>




subsection \<open>Entry deletion\<close>

text \<open>The loop of \<open>leftmod_error_chain\<close>: the first link of the chain that says a local mod was left.\<close>

fun find_left_local_mod :: "svn_error \<Rightarrow> svn_error option" where
  "find_left_local_mod (Svn_error code None) =
     (if code = SVN_ERR_WC_LEFT_LOCAL_MOD then Some (Svn_error code None) else None)"
| "find_left_local_mod (Svn_error code (Some next)) =
     (if code = SVN_ERR_WC_LEFT_LOCAL_MOD then Some (Svn_error code (Some next))
      else find_left_local_mod next)"


definition leftmod_error_chain ::
  "'w wc_api \<Rightarrow> svn_error option \<Rightarrow> string \<Rightarrow> string \<Rightarrow> 'w edit_state \<Rightarrow> (unit, 'w edit_state) outcome" where
  "leftmod_error_chain api err logfile path st =
     (case err of
        None \<Rightarrow> Done () st
      | Some e \<Rightarrow>
          (case find_left_local_mod e of
             Some tmp_err \<Rightarrow>
               Failed (Svn_error SVN_ERR_WC_OBSTRUCTED_UPDATE (Some tmp_err))
                 (snd (perform (Ev_remove_file logfile) (svn_io_remove_file api logfile) st))
           | None \<Rightarrow> Failed e st))"

text \<open>
  Writing the accumulated log commands into the open log file of a directory; on a write
  error the file is closed and the status is returned as a new error.
\<close>

definition write_log_file ::
  "'w wc_api \<Rightarrow> string \<Rightarrow> log_command list \<Rightarrow> 'w edit_state \<Rightarrow> (unit, 'w edit_state) outcome" where
  "write_log_file api dir items st =
     (case perform (Ev_write_log dir items) (apr_file_write_full api dir items) st of
        (None, st1) \<Rightarrow> Done () st1
      | (Some status, st1) \<Rightarrow> Failed (Svn_error status None) (st1\<lparr>wc := apr_file_close api dir (wc st1)\<rparr>))"

text \<open>The log item of a deletion: the delete-entry tag and, for the target of the edit, the tag that recreates a deleted entry.\<close>

definition deletion_log_item :: "svn_lib \<Rightarrow> edit_baton \<Rightarrow> svn_node_kind \<Rightarrow> string \<Rightarrow> log_command list" where
  "deletion_log_item lib e kind path =
     Log_command SVN_WC__LOG_DELETE_ENTRY [(SVN_WC__LOG_ATTR_NAME, Str (svn_path_basename lib path))]
     # (if target e = Some path
        then [Log_command SVN_WC__LOG_MODIFY_ENTRY
                [(SVN_WC__LOG_ATTR_NAME, Str path),
                 (SVN_WC__ENTRY_ATTR_KIND,
                    if kind = svn_node_file then SVN_WC__ENTRIES_ATTR_FILE_STR else SVN_WC__ENTRIES_ATTR_DIR_STR),
                 (SVN_WC__ENTRY_ATTR_REVISION, Revnum_str (target_revision e)),
                 (SVN_WC__ENTRY_ATTR_DELETED, Str ''true'')]]
        else [])"

text \<open>The check of \<open>do_entry_deletion\<close> for local modifications of a file.\<close>

definition check_local_mods ::
  "svn_lib \<Rightarrow> 'w wc_api \<Rightarrow> svn_node_kind \<Rightarrow> string \<Rightarrow> 'w edit_state \<Rightarrow> (unit, 'w edit_state) outcome" where
  "check_local_mods lib api kind full_path st =
     (if kind = svn_node_file
      then SVN_ERR (probe (svn_wc_text_modified_p api full_path (wc st)) st) (\<lambda>tmodified_p st.
           SVN_ERR (probe (svn_wc_props_modified_p api full_path (wc st)) st) (\<lambda>pmodified_p st.
             if tmodified_p \<or> pmodified_p
             then Failed (Svn_error SVN_ERR_WC_OBSTRUCTED_UPDATE None) st
             else Done () st))
      else Done () st)"

text \<open>The part of \<open>do_entry_deletion\<close> after the log file is closed: the switch case, the log run and the notification.\<close>

definition run_deletion_log ::
  "svn_lib \<Rightarrow> 'w wc_api \<Rightarrow> svn_node_kind \<Rightarrow> string \<Rightarrow> string \<Rightarrow> 'w edit_state \<Rightarrow> (unit, 'w edit_state) outcome" where
  "run_deletion_log lib api kind parent_path full_path st =
     (let logfile_path = svn_wc__adm_path_log lib parent_path
      in SVN_ERR (if switch_url (eb st) \<noteq> None \<and> kind = svn_node_dir
                  then SVN_ERR (check (svn_wc_adm_retrieve api full_path (wc st)) st) (\<lambda>_ st.
                         (case perform (Ev_remove_from_revision_control full_path)
                                 (svn_wc_remove_from_revision_control api full_path) st of
                            (err, st') \<Rightarrow> leftmod_error_chain api err logfile_path parent_path st'))
                  else Done () st) (\<lambda>_ st.
         SVN_ERR (case perform (Ev_run_log parent_path) (svn_wc__run_log api parent_path None) st of
                    (err, st') \<Rightarrow> leftmod_error_chain api err logfile_path parent_path st') (\<lambda>_ st.
           Done () (notify full_path svn_wc_notify_update_delete svn_node_unknown
                      svn_wc_notify_state_unknown svn_wc_notify_state_unknown None st))))"

definition do_entry_deletion ::
  "svn_lib \<Rightarrow> 'w wc_api \<Rightarrow> string \<Rightarrow> string \<Rightarrow> 'w edit_state \<Rightarrow> (unit, 'w edit_state) outcome" where
  "do_entry_deletion lib api parent_path path st =
     (let base_name = svn_path_basename lib path;
          full_path = svn_path_join lib parent_path base_name
      in SVN_ERR (probe (svn_io_check_path api full_path (wc st)) st) (\<lambda>kind st.
         SVN_ERR (check (svn_wc_adm_retrieve api parent_path (wc st)) st) (\<lambda>_ st.
         SVN_ERR (check_local_mods lib api kind full_path st) (\<lambda>_ st.
         SVN_ERR (call (Ev_open_log parent_path) (svn_wc__open_adm_file api parent_path) st) (\<lambda>_ st.
           let log_item = deletion_log_item lib (eb st) kind path;
               st1 = (if target (eb st) = Some path
                      then st\<lparr>eb := (eb st)\<lparr>target_deleted := True\<rparr>\<rparr> else st)
           in SVN_ERR (write_log_file api parent_path log_item st1) (\<lambda>_ st.
              SVN_ERR (call (Ev_close_log parent_path) (svn_wc__close_adm_file api parent_path) st) (\<lambda>_ st.
                run_deletion_log lib api kind parent_path full_path st)))))))"

definition delete_entry ::
  "svn_lib \<Rightarrow> 'w wc_api \<Rightarrow> string \<Rightarrow> int \<Rightarrow> dir_baton \<Rightarrow> 'w edit_state \<Rightarrow> (unit, 'w edit_state) outcome" where
  "delete_entry lib api path revision pb st = do_entry_deletion lib api (db_path pb) path st"

subsection \<open>Opening and adding directories\<close>


definition set_target_revision :: "int \<Rightarrow> 'w edit_state \<Rightarrow> (unit, 'w edit_state) outcome" where
  "set_target_revision revision st = Done () (st\<lparr>eb := (eb st)\<lparr>target_revision := revision\<rparr>\<rparr>)"




text \<open>Marking a directory as being at the target revision and URL, but incomplete (\<open>open_root\<close>, \<open>open_directory\<close>).\<close>

definition mark_incomplete :: "'w wc_api \<Rightarrow> dir_baton \<Rightarrow> 'w edit_state \<Rightarrow> (unit, 'w edit_state) outcome" where
  "mark_incomplete api d st =
     SVN_ERR (check (svn_wc_adm_retrieve api (db_path d) (wc st)) st) (\<lambda>_ st.
       call (Ev_entry_modify (db_path d) None
               [Modify_revision (target_revision (eb st)), Modify_url (db_new_URL d), Modify_incomplete True])
         (svn_wc__entry_modify api (db_path d) None
            [Modify_revision (target_revision (eb st)), Modify_url (db_new_URL d), Modify_incomplete True]) st)"

definition open_root ::
  "svn_lib \<Rightarrow> 'w wc_api \<Rightarrow> int \<Rightarrow> 'w edit_state \<Rightarrow> (dir_baton, 'w edit_state) outcome" where
  "open_root lib api base_revision st =
     SVN_ERR (make_dir_baton lib api None None False (st\<lparr>eb := (eb st)\<lparr>root_opened := True\<rparr>\<rparr>)) (\<lambda>d st.
       if target (eb st) = None
       then SVN_ERR (mark_incomplete api d st) (\<lambda>_ st. Done d st)
       else Done d st)"

definition open_directory ::
  "svn_lib \<Rightarrow> 'w wc_api \<Rightarrow> string \<Rightarrow> dir_baton \<Rightarrow> int \<Rightarrow> 'w edit_state \<Rightarrow> (dir_baton, 'w edit_state) outcome" where
  "open_directory lib api path parent_dir_baton base_revision st =
     SVN_ERR (make_dir_baton lib api (Some path) (Some parent_dir_baton) False st) (\<lambda>this_dir_baton st.
       SVN_ERR (mark_incomplete api this_dir_baton st) (\<lambda>_ st. Done this_dir_baton st))"

subsection \<open>Directory properties and \<open>close_directory\<close>\<close>











subsection \<open>Files\<close>

definition add_or_open_file ::
  "svn_lib \<Rightarrow> 'w wc_api \<Rightarrow> string \<Rightarrow> dir_baton \<Rightarrow> string option \<Rightarrow> int \<Rightarrow> bool \<Rightarrow> 'w edit_state
     \<Rightarrow> (file_baton, 'w edit_state) outcome" where
  "add_or_open_file lib api path pb copyfrom_path copyfrom_rev adding st =
     SVN_ERR (make_file_baton lib api pb (Some path) adding st) (\<lambda>fb st.
     SVN_ERR (probe (svn_io_check_path api (fb_path fb) (wc st)) st) (\<lambda>kind st.
     SVN_ERR (check (svn_wc_adm_retrieve api (db_path pb) (wc st)) st) (\<lambda>_ st.
     SVN_ERR (probe (svn_wc_entry api (fb_path fb) False (wc st)) st) (\<lambda>entry st.
       if adding \<and> kind \<noteq> svn_node_none
       then Failed (Svn_error SVN_ERR_WC_OBSTRUCTED_UPDATE None) st
       else if adding \<and> (case entry of Some e \<Rightarrow> entry_schedule e = svn_wc_schedule_add | None \<Rightarrow> False)
       then Failed (Svn_error SVN_ERR_WC_OBSTRUCTED_UPDATE None) st
       else if \<not> adding \<and> entry = None
       then Failed (Svn_error SVN_ERR_ENTRY_NOT_FOUND None) st
       else Done fb st))))"

definition add_file ::
  "svn_lib \<Rightarrow> 'w wc_api \<Rightarrow> string \<Rightarrow> dir_baton \<Rightarrow> string option \<Rightarrow> int \<Rightarrow> 'w edit_state
     \<Rightarrow> (file_baton, 'w edit_state) outcome" where
  "add_file lib api name pb copyfrom_path copyfrom_revision st =
     add_or_open_file lib api name pb copyfrom_path copyfrom_revision True st"

definition open_file ::
  "svn_lib \<Rightarrow> 'w wc_api \<Rightarrow> string \<Rightarrow> dir_baton \<Rightarrow> int \<Rightarrow> 'w edit_state \<Rightarrow> (file_baton, 'w edit_state) outcome" where
  "open_file lib api name pb base_revision st =
     add_or_open_file lib api name pb None base_revision False st"

text \<open>
  The checksum block of \<open>apply_textdelta\<close>, entered when the file has an entry and the
  entry records a checksum. \<open>strcmp\<close> reads through the hex digest, so a NULL digest
  string stops the process.
\<close>

definition verify_text_base ::
  "svn_lib \<Rightarrow> 'w wc_api \<Rightarrow> file_baton \<Rightarrow> string option \<Rightarrow> string \<Rightarrow> 'w edit_state \<Rightarrow> (unit, 'w edit_state) outcome" where
  "verify_text_base lib api fb base_checksum recorded st =
     (let tb = svn_wc__text_base_path lib (fb_path fb) False
      in SVN_ERR (probe (svn_io_file_checksum api tb (wc st)) st) (\<lambda>dg st.
           (case svn_md5_digest_to_cstring lib dg of
              None \<Rightarrow> Aborted
            | Some hex_digest \<Rightarrow>
                if (case base_checksum of Some bc \<Rightarrow> hex_digest \<noteq> bc | None \<Rightarrow> False)
                then Failed (Svn_error SVN_ERR_WC_CORRUPT_TEXT_BASE None) st
                else if hex_digest \<noteq> recorded \<and> svn_base64_from_md5 lib dg \<noteq> recorded
                then Failed (Svn_error SVN_ERR_WC_CORRUPT_TEXT_BASE None) st
                else Done () st)))"

text \<open>Opening the old text-base for reading (a missing one is a new file) and the temporary one for writing.\<close>

definition open_text_bases ::
  "'w wc_api \<Rightarrow> file_baton \<Rightarrow> 'w edit_state \<Rightarrow> (handler_baton, 'w edit_state) outcome" where
  "open_text_bases api fb st =
     (case perform (Ev_open_text_base (fb_path fb)) (svn_wc__open_text_base api (fb_path fb) False) st of
        ((err, source), st1) \<Rightarrow>
          (case (case err of None \<Rightarrow> None | Some e \<Rightarrow> if apr_err e \<noteq> APR_ENOENT then Some e else None) of
             Some e \<Rightarrow>
               Failed e (if source
                         then snd (perform (Ev_close_text_base (fb_path fb))
                                     (svn_wc__close_text_base api (fb_path fb) False) st1)
                         else st1)
           | None \<Rightarrow>
               (case perform (Ev_open_text_base (fb_path fb)) (svn_wc__open_text_base api (fb_path fb) True) st1 of
                  ((Some e, dest), st2) \<Rightarrow>
                    Failed e (if dest
                              then snd (perform (Ev_close_text_base (fb_path fb))
                                          (svn_wc__close_text_base api (fb_path fb) True) st2)
                              else st2)
                | ((None, dest), st2) \<Rightarrow> Done \<lparr>hb_source = (err = None \<and> source)\<rparr> st2)))"

definition apply_textdelta ::
  "svn_lib \<Rightarrow> 'w wc_api \<Rightarrow> file_baton \<Rightarrow> string option \<Rightarrow> 'w edit_state \<Rightarrow> (handler_baton, 'w edit_state) outcome" where
  "apply_textdelta lib api fb base_checksum st =
     SVN_ERR (check (svn_wc_adm_retrieve api (svn_path_dirname lib (fb_path fb)) (wc st)) st) (\<lambda>_ st.
     SVN_ERR (probe (svn_wc_entry api (fb_path fb) False (wc st)) st) (\<lambda>ent st.
     SVN_ERR (case (case ent of None \<Rightarrow> None | Some e \<Rightarrow> entry_checksum e) of
                None \<Rightarrow> Done () st
              | Some recorded \<Rightarrow> verify_text_base lib api fb base_checksum recorded st) (\<lambda>_ st.
       open_text_bases api fb st)))"

definition change_file_prop ::
  "svn_lib \<Rightarrow> string \<Rightarrow> string option \<Rightarrow> file_baton \<Rightarrow> 'w edit_state \<Rightarrow> (file_baton, 'w edit_state) outcome" where
  "change_file_prop lib name val fb st =
     (let fb1 = fb\<lparr>fb_propchanges := fb_propchanges fb @ [\<lparr>prop_name = name, prop_value = val\<rparr>],
                  prop_changed := True\<rparr>
      in if use_commit_times (eb st) \<and> name = SVN_PROP_ENTRY_COMMITTED_DATE lib
         then (case val of
                 None \<Rightarrow> Aborted
               | Some data \<Rightarrow> Done (fb1\<lparr>last_changed_date := Some data\<rparr>) st)
         else Done fb1 st)"



subsection \<open>The anchor/target resolver\<close>

text \<open>\<open>check_wc_root\<close>: on success, whether the path is a working-copy root, and the kind of its entry.\<close>

text \<open>The entry of the parent directory, as \<open>check_wc_root\<close> looks it up: NULL when the parent cannot be opened or has no entry.\<close>

definition parent_entry :: "'w wc_api \<Rightarrow> string \<Rightarrow> 'w \<Rightarrow> svn_wc_entry option" where
  "parent_entry api parent w =
     (case svn_wc_adm_probe_open api parent w of
        Some e \<Rightarrow> None
      | None \<Rightarrow> (case svn_wc_entry api parent False w of Inl e \<Rightarrow> None | Inr p_entry \<Rightarrow> p_entry))"

definition check_wc_root ::
  "svn_lib \<Rightarrow> 'w wc_api \<Rightarrow> string \<Rightarrow> 'w \<Rightarrow> svn_error + bool \<times> svn_node_kind" where
  "check_wc_root lib api path w =
     (case svn_wc_entry api path False w of
        Inl e \<Rightarrow> Inl e
      | Inr None \<Rightarrow> Inl (Svn_error SVN_ERR_ENTRY_NOT_FOUND None)
      | Inr (Some entry) \<Rightarrow>
          if svn_path_is_empty lib path then Inr (True, entry_kind entry)
          else
            let parent = svn_path_dirname lib path;
                base_name = svn_path_basename lib path
            in (case parent_entry api parent w of
                  None \<Rightarrow> Inr (True, entry_kind entry)
                | Some p_entry \<Rightarrow>
                    (case entry_url p_entry of
                       None \<Rightarrow> Inl (Svn_error SVN_ERR_ENTRY_MISSING_URL None)
                     | Some p_url \<Rightarrow>
                         if (case entry_url entry of
                               Some url \<Rightarrow> svn_path_url_add_component lib p_url base_name \<noteq> url
                             | None \<Rightarrow> False)
                         then Inr (True, entry_kind entry)
                         else Inr (False, entry_kind entry))))"

definition svn_wc_is_wc_root :: "svn_lib \<Rightarrow> 'w wc_api \<Rightarrow> string \<Rightarrow> 'w \<Rightarrow> svn_error + bool" where
  "svn_wc_is_wc_root lib api path w = map_sum id fst (check_wc_root lib api path w)"

text \<open>\<open>svn_wc_get_actual_target\<close>: on success, the anchor and the target (NULL when the path is its own anchor).\<close>

definition svn_wc_get_actual_target ::
  "svn_lib \<Rightarrow> 'w wc_api \<Rightarrow> string \<Rightarrow> 'w \<Rightarrow> svn_error + string \<times> string option" where
  "svn_wc_get_actual_target lib api path w =
     (case svn_wc_adm_probe_open api path w of
        Some e \<Rightarrow> Inl e
      | None \<Rightarrow>
          (case check_wc_root lib api path w of
             Inl e \<Rightarrow> Inl e
           | Inr (is_wc_root, kind) \<Rightarrow>
               (case svn_wc_adm_close api path w of
                  Some e \<Rightarrow> Inl e
                | None \<Rightarrow>
                    if \<not> is_wc_root \<or> kind = svn_node_file
                    then Inr (if svn_path_dirname lib path = [] then [] else svn_path_dirname lib path,
                              Some (svn_path_basename lib path))
                    else Inr (path, None))))"

subsection \<open>The bump information over a whole edit\<close>










text \<open>How often \<open>complete_directory\<close> was called for a bump record.\<close>

definition completions :: "'w edit_state \<Rightarrow> nat \<Rightarrow> nat" where
  "completions st i = count_list (trace st) (Ev_complete_directory i)"




subsection \<open>Concrete instances\<close>

text \<open>
  A small library and a working copy without content, on which the functions can be
  run: paths are joined with a slash, every query succeeds, nothing is on disk, and every
  directory has just its own entry. The working copy is the list of log items written.
\<close>

definition example_join :: "string \<Rightarrow> string \<Rightarrow> string" where
  "example_join a b = (if a = [] then b else if b = [] then a else a @ ''/'' @ b)"

definition example_basename :: "string \<Rightarrow> string" where
  "example_basename p = rev (takeWhile (\<lambda>c. c \<noteq> CHR ''/'') (rev p))"

definition example_dirname :: "string \<Rightarrow> string" where
  "example_dirname p = rev (drop 1 (dropWhile (\<lambda>c. c \<noteq> CHR ''/'') (rev p)))"

definition example_lib :: svn_lib where
  "example_lib =
     \<lparr>svn_path_join = example_join,
      svn_path_basename = example_basename,
      svn_path_dirname = example_dirname,
      svn_path_is_empty = (\<lambda>p. p = []),
      svn_path_url_add_component = example_join,
      svn_wc__adm_path_log = (\<lambda>p. example_join p ''.svn/log''),
      svn_wc__text_base_path = (\<lambda>p tmp. example_join (example_dirname p)
         ((if tmp then ''.svn/tmp/text-base/'' else ''.svn/text-base/'') @ example_basename p @ ''.svn-base'')),
      svn_md5_digest_to_cstring =
        (\<lambda>d. if list_all (\<lambda>b. b = 0) d then None
              else Some (concat (map (\<lambda>b. if b = 1 then ''01'' else if b = 2 then ''02'' else ''ff'') d))),
      svn_base64_from_md5 = (\<lambda>d. map (\<lambda>b. if b = 1 then CHR ''A'' else if b = 2 then CHR ''B'' else CHR ''='') d),
      svn_property_kind = (\<lambda>n. if take 10 n = ''svn:entry:'' then svn_prop_entry_kind
                                else if take 7 n = ''svn:wc:'' then svn_prop_wc_kind
                                else svn_prop_regular_kind),
      SVN_WC_ADM_DIR_NAME = ''.svn'',
      SVN_WC_ENTRY_THIS_DIR = [],
      SVN_PROP_EXTERNALS = ''svn:externals'',
      SVN_PROP_ENTRY_COMMITTED_DATE = ''svn:entry:committed-date'',
      SVN_PROP_ENTRY_LAST_AUTHOR = ''svn:entry:last-author'',
      SVN_PROP_ENTRY_COMMITTED_REV = ''svn:entry:committed-rev'',
      SVN_PROP_ENTRY_UUID = ''svn:entry:uuid''\<rparr>"

definition digest_of_ones :: "8 word list" where
  "digest_of_ones = [1, 1, 1, 1, 1, 1, 1, 1, 1, 1, 1, 1, 1, 1, 1, 1]"

definition digest_of_twos :: "8 word list" where
  "digest_of_twos = [2, 2, 2, 2, 2, 2, 2, 2, 2, 2, 2, 2, 2, 2, 2, 2]"

definition example_dir_entry :: svn_wc_entry where
  "example_dir_entry =
     \<lparr>entry_kind = svn_node_dir, entry_revision = 3, entry_url = Some ''http://host/repo'',
      entry_schedule = svn_wc_schedule_normal, entry_deleted = False, entry_incomplete = True,
      entry_checksum = None\<rparr>"

definition example_api :: "log_command list wc_api" where
  "example_api =
     \<lparr>svn_io_check_path = (\<lambda>p w. Inr svn_node_none),
      svn_wc_adm_retrieve = (\<lambda>p w. None),
      svn_wc_adm_probe_open = (\<lambda>p w. None),
      svn_wc_adm_close = (\<lambda>p w. None),
      svn_wc_entry = (\<lambda>p show_deleted w. Inr None),
      svn_wc_entries_read = (\<lambda>p show_deleted w. Inr [([], example_dir_entry)]),
      svn_wc__entries_write = (\<lambda>es p w. (None, w)),
      svn_wc__entry_modify = (\<lambda>p n cs w. (None, w)),
      svn_wc__adm_missing = (\<lambda>p w. False),
      svn_wc_text_modified_p = (\<lambda>p w. Inr False),
      svn_wc_props_modified_p = (\<lambda>p w. Inr False),
      svn_wc_prop_get = (\<lambda>n p w. Inr None),
      svn_wc__open_adm_file = (\<lambda>p w. (None, w)),
      apr_file_write_full = (\<lambda>p items w. (None, w @ items)),
      apr_file_close = (\<lambda>p w. w),
      svn_wc__close_adm_file = (\<lambda>p w. (None, w)),
      svn_wc__run_log = (\<lambda>p d w. (None, [])),
      svn_io_remove_file = (\<lambda>p w. (None, [])),
      svn_wc_remove_from_revision_control = (\<lambda>p w. (None, w)),
      svn_wc__merge_prop_diffs = (\<lambda>p n props w. (Inr (svn_wc_notify_state_changed, []), w)),
      svn_wc__ensure_directory = (\<lambda>p w. (None, w)),
      svn_wc_ensure_adm = (\<lambda>p u r w. (None, w)),
      svn_wc_adm_open = (\<lambda>a p w. (None, w)),
      svn_io_file_checksum = (\<lambda>p w. Inr digest_of_ones),
      svn_wc__open_text_base = (\<lambda>p wr w. ((None, True), w)),
      svn_wc__close_text_base = (\<lambda>p wr w. (None, w)),
      apr_file_remove = (\<lambda>p w. w),
      apply_handler = (\<lambda>window w. ((None, if window = None then Some digest_of_ones else None), w)),
      install_file = (\<lambda>args w. (Inr (svn_wc_notify_state_changed, svn_wc_notify_state_unchanged), w))\<rparr>"

definition example_eb :: edit_baton where
  "example_eb =
     \<lparr>anchor = ''proj'', target = None, adm_access = Some ''proj'', target_revision = 10,
      recurse = True, use_commit_times = True, root_opened = False, target_deleted = False,
      switch_url = None, diff3_cmd = None, traversal_info = None, notify_func = True\<rparr>"

definition example_state :: "log_command list edit_state" where
  "example_state = \<lparr>eb = example_eb, bump_infos = [], wc = [], trace = []\<rparr>"

definition example_fb :: file_baton where
  "example_fb =
     \<lparr>fb_name = ''a.txt'', fb_path = ''proj/a.txt'', fb_new_URL = None, fb_added = False,
      text_changed = True, prop_changed = False, fb_propchanges = [], last_changed_date = None,
      fb_bump_info = 0, digest = digest_of_ones\<rparr>"

definition example_root :: dir_baton where
  "example_root = Dir_baton ''proj'' None (Some ''http://host/repo'') None False [] 0"




section \<open>Properties\<close>

subsection \<open>File properties and file close\<close>

text \<open>
  Claim C10. \<open>change_file_prop\<close> reads through the value pointer whenever the edit uses
  commit times and the property is the committed-date entry property. So the call stops
  the process exactly when, under these two conditions, the value is a tombstone (NULL);
  with a value, it returns and caches the date in the file baton.
\<close>

theorem change_file_prop_committed_date:
  "(change_file_prop lib name val fb st = Aborted)
     = (use_commit_times (eb st) \<and> name = SVN_PROP_ENTRY_COMMITTED_DATE lib \<and> val = None)
   \<and> (use_commit_times (eb st) \<and> name = SVN_PROP_ENTRY_COMMITTED_DATE lib \<longrightarrow>
        (\<forall>data. val = Some data \<longrightarrow>
           (\<exists>fb'. change_file_prop lib name val fb st = Done fb' st \<and> last_changed_date fb' = Some data)))"
  by (auto simp: change_file_prop_def Let_def split: option.splits)

theorem change_file_prop_committed_date_witness:
  "use_commit_times (eb example_state)
   \<and> change_file_prop example_lib ''svn:entry:committed-date'' None example_fb example_state = Aborted
   \<and> (\<exists>fb'. change_file_prop example_lib ''svn:entry:committed-date'' (Some ''2003-01-13'') example_fb example_state
              = Done fb' example_state \<and> last_changed_date fb' = Some ''2003-01-13'')"
  using change_file_prop_committed_date [of example_lib "''svn:entry:committed-date''" None example_fb example_state]
        change_file_prop_committed_date [of example_lib "''svn:entry:committed-date''" "Some ''2003-01-13''" example_fb example_state]
  by (simp add: example_state_def example_eb_def example_lib_def)



subsection \<open>The concrete instances, field by field\<close>

lemma example_lib_fields:
  "svn_path_join example_lib = example_join"
  "svn_path_basename example_lib = example_basename"
  "svn_path_dirname example_lib = example_dirname"
  "svn_path_is_empty example_lib = (\<lambda>p. p = [])"
  "svn_path_url_add_component example_lib = example_join"
  "svn_wc__adm_path_log example_lib = (\<lambda>p. example_join p ''.svn/log'')"
  "SVN_WC_ADM_DIR_NAME example_lib = ''.svn''"
  "SVN_WC_ENTRY_THIS_DIR example_lib = []"
  "SVN_PROP_EXTERNALS example_lib = ''svn:externals''"
  "SVN_PROP_ENTRY_COMMITTED_DATE example_lib = ''svn:entry:committed-date''"
  by (simp_all add: example_lib_def)

lemma example_api_fields:
  "svn_io_check_path example_api = (\<lambda>p w. Inr svn_node_none)"
  "svn_wc_adm_retrieve example_api = (\<lambda>p w. None)"
  "svn_wc_adm_probe_open example_api = (\<lambda>p w. None)"
  "svn_wc_adm_close example_api = (\<lambda>p w. None)"
  "svn_wc_entry example_api = (\<lambda>p show_deleted w. Inr None)"
  "svn_wc_entries_read example_api = (\<lambda>p show_deleted w. Inr [([], example_dir_entry)])"
  "svn_wc__entries_write example_api = (\<lambda>es p w. (None, w))"
  "svn_wc__entry_modify example_api = (\<lambda>p n cs w. (None, w))"
  "svn_wc__adm_missing example_api = (\<lambda>p w. False)"
  "svn_wc_text_modified_p example_api = (\<lambda>p w. Inr False)"
  "svn_wc_props_modified_p example_api = (\<lambda>p w. Inr False)"
  "svn_wc_prop_get example_api = (\<lambda>n p w. Inr None)"
  "svn_wc__open_adm_file example_api = (\<lambda>p w. (None, w))"
  "apr_file_write_full example_api = (\<lambda>p items w. (None, w @ items))"
  "apr_file_close example_api = (\<lambda>p w. w)"
  "svn_wc__close_adm_file example_api = (\<lambda>p w. (None, w))"
  "svn_wc__run_log example_api = (\<lambda>p d w. (None, []))"
  "svn_io_remove_file example_api = (\<lambda>p w. (None, []))"
  "svn_wc_remove_from_revision_control example_api = (\<lambda>p w. (None, w))"
  "svn_wc__merge_prop_diffs example_api = (\<lambda>p n props w. (Inr (svn_wc_notify_state_changed, []), w))"
  "svn_io_file_checksum example_api = (\<lambda>p w. Inr digest_of_ones)"
  "svn_wc__open_text_base example_api = (\<lambda>p wr w. ((None, True), w))"
  "svn_wc__close_text_base example_api = (\<lambda>p wr w. (None, w))"
  "apr_file_remove example_api = (\<lambda>p w. w)"
  "apply_handler example_api = (\<lambda>window w. ((None, if window = None then Some digest_of_ones else None), w))"
  "install_file example_api = (\<lambda>args w. (Inr (svn_wc_notify_state_changed, svn_wc_notify_state_unchanged), w))"
  by (simp_all add: example_api_def)



subsection \<open>Text-base checksums in \<open>apply_textdelta\<close>\<close>

text \<open>
  Claim C3 says that a supplied base checksum is verified on every call. It is verified
  only inside the block for an entry that records a checksum: here the entry records none,
  the supplied base checksum differs from the digest of the text-base, and the call
  succeeds.
\<close>

theorem apply_textdelta_base_checksum_counterexample:
  "svn_md5_digest_to_cstring example_lib digest_of_twos = Some ''02020202020202020202020202020202''
   \<and> apply_textdelta example_lib
     (example_api\<lparr>svn_wc_entry := \<lambda>p d w. Inr (Some (example_dir_entry\<lparr>entry_kind := svn_node_file\<rparr>)),
                  svn_io_file_checksum := \<lambda>p w. Inr digest_of_twos\<rparr>)
     example_fb (Some ''01010101010101010101010101010101'') example_state
   = Done \<lparr>hb_source = True\<rparr>
       (example_state\<lparr>trace := [Ev_open_text_base ''proj/a.txt'', Ev_open_text_base ''proj/a.txt'']\<rparr>)"
  by (simp add: apply_textdelta_def SVN_ERR_def check_def probe_def open_text_bases_def perform_def
        example_api_def example_lib_def example_fb_def example_state_def example_dir_entry_def
        digest_of_twos_def)

text \<open>
  Claim C3, as amended. With the access baton and the entry lookup succeeding: when the
  file has an entry with a recorded checksum (and the digest of the text-base has a hex
  form), \<open>apply_textdelta\<close> fails with \<open>SVN_ERR_WC_CORRUPT_TEXT_BASE\<close> exactly when a
  supplied base checksum differs from the hex digest, or the recorded checksum is neither
  the hex nor the base64 form of the digest; otherwise it goes on to open the text-bases.
  Without an entry, or with an entry that records no checksum, nothing is verified,
  whatever base checksum the driver supplies.
\<close>

theorem apply_textdelta_checksums:
  assumes "svn_wc_adm_retrieve api (svn_path_dirname lib (fb_path fb)) (wc st) = None"
    and "svn_wc_entry api (fb_path fb) False (wc st) = Inr ent"
  shows "(\<forall>e recorded dg hex_digest.
            ent = Some e \<and> entry_checksum e = Some recorded
            \<and> svn_io_file_checksum api (svn_wc__text_base_path lib (fb_path fb) False) (wc st) = Inr dg
            \<and> svn_md5_digest_to_cstring lib dg = Some hex_digest
            \<longrightarrow> apply_textdelta lib api fb base_checksum st =
                  (if (\<exists>bc. base_checksum = Some bc \<and> hex_digest \<noteq> bc)
                      \<or> (hex_digest \<noteq> recorded \<and> svn_base64_from_md5 lib dg \<noteq> recorded)
                   then Failed (Svn_error SVN_ERR_WC_CORRUPT_TEXT_BASE None) st
                   else open_text_bases api fb st))
       \<and> ((ent = None \<or> (\<exists>e. ent = Some e \<and> entry_checksum e = None))
            \<longrightarrow> apply_textdelta lib api fb base_checksum st = open_text_bases api fb st)"
  using assms
  by (auto simp: apply_textdelta_def verify_text_base_def SVN_ERR_def check_def probe_def Let_def
           split: option.splits)

theorem apply_textdelta_checksums_witness:
  "apply_textdelta example_lib
     (example_api\<lparr>svn_wc_entry := \<lambda>p d w. Inr (Some (example_dir_entry\<lparr>entry_kind := svn_node_file,
                                                       entry_checksum := Some ''abc''\<rparr>)),
                  svn_io_file_checksum := \<lambda>p w. Inr digest_of_twos\<rparr>)
     example_fb (Some ''02020202020202020202020202020202'') example_state
   = Failed (Svn_error SVN_ERR_WC_CORRUPT_TEXT_BASE None) example_state
   \<and> apply_textdelta example_lib
     (example_api\<lparr>svn_wc_entry := \<lambda>p d w. Inr (Some (example_dir_entry\<lparr>entry_kind := svn_node_file,
                                                       entry_checksum := Some ''BBBBBBBBBBBBBBBB''\<rparr>)),
                  svn_io_file_checksum := \<lambda>p w. Inr digest_of_twos\<rparr>)
     example_fb (Some ''01010101010101010101010101010101'') example_state
   = Failed (Svn_error SVN_ERR_WC_CORRUPT_TEXT_BASE None) example_state
   \<and> apply_textdelta example_lib example_api example_fb (Some ''01010101010101010101010101010101'') example_state
     = open_text_bases example_api example_fb example_state"
  using apply_textdelta_checksums [of
     "example_api\<lparr>svn_wc_entry := \<lambda>p d w. Inr (Some (example_dir_entry\<lparr>entry_kind := svn_node_file,
                                                       entry_checksum := Some ''abc''\<rparr>)),
                  svn_io_file_checksum := \<lambda>p w. Inr digest_of_twos\<rparr>"
     example_lib example_fb example_state
     "Some (example_dir_entry\<lparr>entry_kind := svn_node_file, entry_checksum := Some ''abc''\<rparr>)"
     "Some ''02020202020202020202020202020202''"]
    apply_textdelta_checksums [of
     "example_api\<lparr>svn_wc_entry := \<lambda>p d w. Inr (Some (example_dir_entry\<lparr>entry_kind := svn_node_file,
                                                       entry_checksum := Some ''BBBBBBBBBBBBBBBB''\<rparr>)),
                  svn_io_file_checksum := \<lambda>p w. Inr digest_of_twos\<rparr>"
     example_lib example_fb example_state
     "Some (example_dir_entry\<lparr>entry_kind := svn_node_file, entry_checksum := Some ''BBBBBBBBBBBBBBBB''\<rparr>)"
     "Some ''01010101010101010101010101010101''"]
    apply_textdelta_checksums [of example_api example_lib example_fb example_state None
     "Some ''01010101010101010101010101010101''"]
  by (simp add: example_api_def example_lib_def example_fb_def example_state_def example_dir_entry_def
       digest_of_twos_def)

subsection \<open>The checks of \<open>add_directory\<close>\<close>




subsection \<open>Obstructions of \<open>delete_entry\<close>\<close>


lemma find_left_local_mod_Some:
  "find_left_local_mod e = Some tmp_err \<Longrightarrow> apr_err tmp_err = SVN_ERR_WC_LEFT_LOCAL_MOD"
  by (induction e rule: find_left_local_mod.induct) (auto split: if_splits)



subsection \<open>The \<open>text_changed\<close> flag\<close>







subsection \<open>States that continue a state\<close>

lemma continues_iff: "continues st st' = (eb st' = eb st \<and> (\<exists>evs. trace st' = trace st @ evs))"
  unfolding continues_def
  by (metis append_eq_conv_conj append_take_drop_id)

lemma continues_refl: "continues st st"
  by (simp add: continues_iff)

lemma continues_trans: "continues st s \<Longrightarrow> continues s st' \<Longrightarrow> continues st st'"
  by (auto simp: continues_iff)

lemma perform_continues: "continues st (snd (perform ev f st))"
  by (simp add: continues_iff perform_def)

lemma notify_continues: "continues st (notify p a k cs ps r st)"
  by (simp add: continues_iff notify_def)

lemma proceeds_Done: "proceeds st (Done a s) = continues st s"
  by (simp add: proceeds_def outcome_state_def)

lemma proceeds_Failed: "proceeds st (Failed e s) = continues st s"
  by (simp add: proceeds_def outcome_state_def)

lemma proceeds_trans: "continues st s \<Longrightarrow> proceeds s r \<Longrightarrow> proceeds st r"
  by (auto simp: proceeds_def outcome_state_def intro: continues_trans split: outcome.splits)

lemma proceeds_SVN_ERR:
  assumes "proceeds st m" and "\<And>a s. m = Done a s \<Longrightarrow> proceeds s (k a s)"
  shows "proceeds st (SVN_ERR m k)"
proof (cases m)
  case (Done a s)
  with assms(1) have "continues st s" by (simp add: proceeds_Done)
  with assms(2) [OF Done] Done show ?thesis
    by (simp add: SVN_ERR_def proceeds_trans)
next
  case (Failed e s)
  with assms(1) show ?thesis by (simp add: SVN_ERR_def proceeds_Failed)
next
  case Aborted
  with assms(1) show ?thesis by (simp add: proceeds_def outcome_state_def)
qed


lemma proceeds_check: "proceeds st (check r st)"
  by (simp add: check_def proceeds_Done proceeds_Failed continues_refl split: option.splits)

lemma proceeds_call: "proceeds st (call ev f st)"
  by (simp add: call_def check_def proceeds_Done proceeds_Failed perform_continues split: option.splits)

lemma proceeds_leftmod: "proceeds st (leftmod_error_chain api err logfile path st)"
  by (simp add: leftmod_error_chain_def proceeds_Done proceeds_Failed perform_continues continues_refl
        split: option.splits)


lemma proceeds_perform_leftmod:
  "proceeds s (case perform ev f s of (err, st') \<Rightarrow> leftmod_error_chain api err logfile path st')"
  by (simp add: case_prod_beta proceeds_trans [OF perform_continues proceeds_leftmod])

lemma proceeds_run_deletion_log: "proceeds st (run_deletion_log lib api kind parent_path full_path st)"
  unfolding run_deletion_log_def Let_def
proof (rule proceeds_SVN_ERR)
  show "proceeds st
     (if switch_url (eb st) \<noteq> None \<and> kind = svn_node_dir
      then SVN_ERR (check (svn_wc_adm_retrieve api full_path (wc st)) st)
            (\<lambda>_ st. case perform (Ev_remove_from_revision_control full_path)
                       (svn_wc_remove_from_revision_control api full_path) st of
                (err, st') \<Rightarrow> leftmod_error_chain api err (svn_wc__adm_path_log lib parent_path) parent_path st')
      else Done () st)"
    by (auto simp: proceeds_Done continues_refl intro!: proceeds_SVN_ERR proceeds_check proceeds_perform_leftmod)
next
  fix a s
  show "proceeds s
          (SVN_ERR
            (case perform (Ev_run_log parent_path) (svn_wc__run_log api parent_path None) s of
             (err, st') \<Rightarrow> leftmod_error_chain api err (svn_wc__adm_path_log lib parent_path) parent_path st')
            (\<lambda>_ st. Done () (notify full_path svn_wc_notify_update_delete svn_node_unknown
                         svn_wc_notify_state_unknown svn_wc_notify_state_unknown None st)))"
    by (auto simp: proceeds_Done notify_continues intro!: proceeds_SVN_ERR proceeds_perform_leftmod)
qed

subsection \<open>Deleting the target of the edit\<close>

lemma delete_entry_target_logged:
  assumes tgt: "target (eb st) = Some path"
    and disk: "svn_io_check_path api (svn_path_join lib (db_path pb) (svn_path_basename lib path)) (wc st) = Inr kind"
    and adm: "svn_wc_adm_retrieve api (db_path pb) (wc st) = None"
    and mods: "kind = svn_node_file \<longrightarrow>
           svn_wc_text_modified_p api (svn_path_join lib (db_path pb) (svn_path_basename lib path)) (wc st) = Inr False
           \<and> svn_wc_props_modified_p api (svn_path_join lib (db_path pb) (svn_path_basename lib path)) (wc st) = Inr False"
    and opened: "fst (svn_wc__open_adm_file api (db_path pb) (wc st)) = None"
  shows "\<exists>st'. outcome_state (delete_entry lib api path revision pb st) = Some st'
           \<and> target_deleted (eb st')
           \<and> take (length (trace st) + 2) (trace st')
               = trace st @ [Ev_open_log (db_path pb),
                   Ev_write_log (db_path pb)
                     [Log_command SVN_WC__LOG_DELETE_ENTRY [(SVN_WC__LOG_ATTR_NAME, Str (svn_path_basename lib path))],
                      Log_command SVN_WC__LOG_MODIFY_ENTRY
                        [(SVN_WC__LOG_ATTR_NAME, Str path),
                         (SVN_WC__ENTRY_ATTR_KIND,
                            if kind = svn_node_file then SVN_WC__ENTRIES_ATTR_FILE_STR
                            else SVN_WC__ENTRIES_ATTR_DIR_STR),
                         (SVN_WC__ENTRY_ATTR_REVISION, Revnum_str (target_revision (eb st))),
                         (SVN_WC__ENTRY_ATTR_DELETED, Str ''true'')]]]"
proof -
  let ?p = "db_path pb"
  let ?full = "svn_path_join lib ?p (svn_path_basename lib path)"
  let ?items = "deletion_log_item lib (eb st) kind path"
  let ?st1 = "snd (perform (Ev_open_log ?p) (svn_wc__open_adm_file api ?p) st)"
  let ?st1' = "?st1\<lparr>eb := (eb ?st1)\<lparr>target_deleted := True\<rparr>\<rparr>"
  let ?st2 = "snd (perform (Ev_write_log ?p ?items) (apr_file_write_full api ?p ?items) ?st1')"
  let ?rest = "\<lambda>s. SVN_ERR (call (Ev_close_log ?p) (svn_wc__close_adm_file api ?p) s)
                   (\<lambda>_ s. run_deletion_log lib api kind ?p ?full s)"
  have unfold: "delete_entry lib api path revision pb st
      = SVN_ERR (write_log_file api ?p ?items ?st1') (\<lambda>_ s. ?rest s)"
    using tgt disk adm mods opened
    by (auto simp: delete_entry_def do_entry_deletion_def check_local_mods_def SVN_ERR_def probe_def
          check_def call_def perform_def Let_def)
  have rest: "proceeds s (?rest s)" for s
    by (intro proceeds_SVN_ERR proceeds_call proceeds_run_deletion_log)
  have st2: "eb ?st2 = (eb st)\<lparr>target_deleted := True\<rparr>"
            "trace ?st2 = trace st @ [Ev_open_log ?p, Ev_write_log ?p ?items]"
    by (simp_all add: perform_def)
  have "\<exists>st'. outcome_state (SVN_ERR (write_log_file api ?p ?items ?st1') (\<lambda>_ s. ?rest s)) = Some st'
          \<and> continues ?st2 st'"
  proof (cases "fst (perform (Ev_write_log ?p ?items) (apr_file_write_full api ?p ?items) ?st1')")
    case None
    then have w: "write_log_file api ?p ?items ?st1' = Done () ?st2"
      by (simp add: write_log_file_def case_prod_beta)
    from rest [of ?st2] show ?thesis
      by (simp add: w SVN_ERR_def proceeds_def split: option.splits)
  next
    case (Some status)
    then have w: "write_log_file api ?p ?items ?st1'
        = Failed (Svn_error status None) (?st2\<lparr>wc := apr_file_close api ?p (wc ?st2)\<rparr>)"
      by (simp add: write_log_file_def case_prod_beta)
    show ?thesis
      by (simp add: w SVN_ERR_def outcome_state_def continues_iff)
  qed
  then obtain st' where out: "outcome_state (delete_entry lib api path revision pb st) = Some st'"
    and cont: "continues ?st2 st'"
    unfolding unfold by blast
  from cont st2 have "target_deleted (eb st')"
    and "take (length (trace st) + 2) (trace st') = trace st @ [Ev_open_log ?p, Ev_write_log ?p ?items]"
    by (simp_all add: continues_def)
  with out tgt show ?thesis
    by (auto simp: deletion_log_item_def)
qed

lemma complete_directory_keeps_tombstone:
  assumes "target (eb st) = Some name" and "target_deleted (eb st)"
    and "svn_wc_adm_retrieve api path (wc st) = None"
    and "svn_wc_entries_read api path True (wc st) = Inr entries"
    and "apr_hash_get entries (SVN_WC_ENTRY_THIS_DIR lib) = Some this_dir"
    and "apr_hash_get entries name = Some e" and "entry_deleted e"
  shows "\<exists>es e'. complete_directory lib api path True st
                    = call (Ev_entries_write path es) (svn_wc__entries_write api es path) st
           \<and> apr_hash_get es name = Some e' \<and> entry_deleted e'
           \<and> entry_revision e' = entry_revision e \<and> entry_kind e' = entry_kind e"
proof -
  let ?es = "map (\<lambda>kv. if fst kv = SVN_WC_ENTRY_THIS_DIR lib
                         then (fst kv, (snd kv)\<lparr>entry_incomplete := False\<rparr>) else kv) entries"
  let ?e' = "if name = SVN_WC_ENTRY_THIS_DIR lib then e\<lparr>entry_incomplete := False\<rparr> else e"
  have get: "apr_hash_get ?es name = Some ?e'"
    using assms(6) unfolding apr_hash_get_def
    by (induction entries) (auto split: if_splits)
  have "complete_directory lib api path True st
          = call (Ev_entries_write path ?es) (svn_wc__entries_write api ?es path) st"
    using assms get
    by (simp add: complete_directory_def complete_target_def SVN_ERR_def probe_def check_def Let_def)
  with get assms(7) show ?thesis
    by (intro exI [of _ ?es] exI [of _ ?e']) simp
qed

text \<open>
  Claim C5 says that the kind of the phantom entry matches the kind on disk. The kind
  written is a file for a file on disk and a directory for anything else: here nothing is
  on disk at the target path, and the entry is written as a directory.
\<close>

theorem delete_entry_target_kind_counterexample:
  "svn_io_check_path example_api (svn_path_join example_lib (db_path example_root) (svn_path_basename example_lib ''gone'')) []
     = Inr svn_node_none
   \<and> delete_entry example_lib example_api ''gone'' 9 example_root
       (example_state\<lparr>eb := example_eb\<lparr>target := Some ''gone''\<rparr>\<rparr>)
     = Done ()
        (example_state\<lparr>eb := example_eb\<lparr>target := Some ''gone'', target_deleted := True\<rparr>,
           trace :=
             [Ev_open_log ''proj'',
              Ev_write_log ''proj''
                [Log_command SVN_WC__LOG_DELETE_ENTRY [(SVN_WC__LOG_ATTR_NAME, Str ''gone'')],
                 Log_command SVN_WC__LOG_MODIFY_ENTRY
                   [(SVN_WC__LOG_ATTR_NAME, Str ''gone''),
                    (SVN_WC__ENTRY_ATTR_KIND, SVN_WC__ENTRIES_ATTR_DIR_STR),
                    (SVN_WC__ENTRY_ATTR_REVISION, Revnum_str 10),
                    (SVN_WC__ENTRY_ATTR_DELETED, Str ''true'')]],
              Ev_close_log ''proj'', Ev_run_log ''proj'',
              Ev_notify ''proj/gone'' svn_wc_notify_update_delete svn_node_unknown
                svn_wc_notify_state_unknown svn_wc_notify_state_unknown None]\<rparr>)"
  by (simp add: delete_entry_def do_entry_deletion_def check_local_mods_def run_deletion_log_def
        leftmod_error_chain_def write_log_file_def call_def perform_def SVN_ERR_def probe_def check_def
        notify_def deletion_log_item_def Let_def
        example_api_fields example_lib_fields example_root_def example_state_def example_eb_def
        example_join_def example_basename_def)

text \<open>
  Claim C5, as amended. When \<open>delete_entry\<close> is called on the target of the edit and
  gets as far as its log file (the probes answer, a file has no local modifications, the
  log file opens), then in the state it leaves \<open>target_deleted\<close> is set, and the first
  thing written to the log is the delete-entry command followed by a modify-entry command
  for the target with the target revision, \<open>deleted\<close> true, and kind file when a file is
  on disk and kind directory otherwise. And \<open>complete_directory\<close> on the root, with a
  target that was deleted, writes back an entries table in which a deleted entry of the
  target is still there, with its revision and kind.
\<close>

theorem delete_entry_target_tombstone:
  "(target (eb st) = Some path
      \<and> svn_io_check_path api (svn_path_join lib (db_path pb) (svn_path_basename lib path)) (wc st) = Inr kind
      \<and> svn_wc_adm_retrieve api (db_path pb) (wc st) = None
      \<and> (kind = svn_node_file \<longrightarrow>
           svn_wc_text_modified_p api (svn_path_join lib (db_path pb) (svn_path_basename lib path)) (wc st) = Inr False
           \<and> svn_wc_props_modified_p api (svn_path_join lib (db_path pb) (svn_path_basename lib path)) (wc st) = Inr False)
      \<and> fst (svn_wc__open_adm_file api (db_path pb) (wc st)) = None
    \<longrightarrow> (\<exists>st'. outcome_state (delete_entry lib api path revision pb st) = Some st'
           \<and> target_deleted (eb st')
           \<and> take (length (trace st) + 2) (trace st')
               = trace st @ [Ev_open_log (db_path pb),
                   Ev_write_log (db_path pb)
                     [Log_command SVN_WC__LOG_DELETE_ENTRY [(SVN_WC__LOG_ATTR_NAME, Str (svn_path_basename lib path))],
                      Log_command SVN_WC__LOG_MODIFY_ENTRY
                        [(SVN_WC__LOG_ATTR_NAME, Str path),
                         (SVN_WC__ENTRY_ATTR_KIND,
                            if kind = svn_node_file then SVN_WC__ENTRIES_ATTR_FILE_STR
                            else SVN_WC__ENTRIES_ATTR_DIR_STR),
                         (SVN_WC__ENTRY_ATTR_REVISION, Revnum_str (target_revision (eb st))),
                         (SVN_WC__ENTRY_ATTR_DELETED, Str ''true'')]]]))
   \<and> (target (eb s) = Some name \<and> target_deleted (eb s)
      \<and> svn_wc_adm_retrieve api dir (wc s) = None
      \<and> svn_wc_entries_read api dir True (wc s) = Inr entries
      \<and> apr_hash_get entries (SVN_WC_ENTRY_THIS_DIR lib) = Some this_dir
      \<and> apr_hash_get entries name = Some e \<and> entry_deleted e
    \<longrightarrow> (\<exists>es e'. complete_directory lib api dir True s
                    = call (Ev_entries_write dir es) (svn_wc__entries_write api es dir) s
           \<and> apr_hash_get es name = Some e' \<and> entry_deleted e'
           \<and> entry_revision e' = entry_revision e \<and> entry_kind e' = entry_kind e))"
  using delete_entry_target_logged [of st path api lib pb kind revision]
        complete_directory_keeps_tombstone [of s name api dir entries lib this_dir e]
  by blast

theorem delete_entry_target_tombstone_witness:
  "(\<exists>st'. outcome_state (delete_entry example_lib (example_api\<lparr>svn_io_check_path := \<lambda>p w. Inr svn_node_file\<rparr>)
                  ''gone'' 9 example_root (example_state\<lparr>eb := example_eb\<lparr>target := Some ''gone''\<rparr>\<rparr>)) = Some st'
        \<and> target_deleted (eb st')
        \<and> take 2 (trace st')
            = [Ev_open_log ''proj'',
               Ev_write_log ''proj''
                 [Log_command SVN_WC__LOG_DELETE_ENTRY [(SVN_WC__LOG_ATTR_NAME, Str ''gone'')],
                  Log_command SVN_WC__LOG_MODIFY_ENTRY
                    [(SVN_WC__LOG_ATTR_NAME, Str ''gone''),
                     (SVN_WC__ENTRY_ATTR_KIND, SVN_WC__ENTRIES_ATTR_FILE_STR),
                     (SVN_WC__ENTRY_ATTR_REVISION, Revnum_str 10),
                     (SVN_WC__ENTRY_ATTR_DELETED, Str ''true'')]]])
   \<and> (\<exists>es e'. complete_directory example_lib
          (example_api\<lparr>svn_wc_entries_read := \<lambda>p d w.
             Inr [([], example_dir_entry),
                  (''gone'', example_dir_entry\<lparr>entry_kind := svn_node_file, entry_revision := 10,
                                              entry_deleted := True\<rparr>)]\<rparr>)
          ''proj'' True (example_state\<lparr>eb := example_eb\<lparr>target := Some ''gone'', target_deleted := True\<rparr>\<rparr>)
        = Done () (example_state\<lparr>eb := example_eb\<lparr>target := Some ''gone'', target_deleted := True\<rparr>,
                                  trace := [Ev_entries_write ''proj'' es]\<rparr>)
        \<and> apr_hash_get es ''gone'' = Some e' \<and> entry_deleted e' \<and> entry_revision e' = 10
        \<and> entry_kind e' = svn_node_file)"
proof -
  let ?api_f = "example_api\<lparr>svn_io_check_path := \<lambda>p w. Inr svn_node_file\<rparr>"
  let ?st = "example_state\<lparr>eb := example_eb\<lparr>target := Some ''gone''\<rparr>\<rparr>"
  let ?tomb = "example_dir_entry\<lparr>entry_kind := svn_node_file, entry_revision := 10, entry_deleted := True\<rparr>"
  let ?entries = "[([], example_dir_entry), (''gone'', ?tomb)]"
  let ?api_c = "example_api\<lparr>svn_wc_entries_read := \<lambda>p d w. Inr ?entries\<rparr>"
  let ?s = "example_state\<lparr>eb := example_eb\<lparr>target := Some ''gone'', target_deleted := True\<rparr>\<rparr>"
  have A: "\<exists>st'. outcome_state (delete_entry example_lib ?api_f ''gone'' 9 example_root ?st) = Some st'
        \<and> target_deleted (eb st')
        \<and> take 2 (trace st')
            = [Ev_open_log ''proj'',
               Ev_write_log ''proj''
                 [Log_command SVN_WC__LOG_DELETE_ENTRY [(SVN_WC__LOG_ATTR_NAME, Str ''gone'')],
                  Log_command SVN_WC__LOG_MODIFY_ENTRY
                    [(SVN_WC__LOG_ATTR_NAME, Str ''gone''),
                     (SVN_WC__ENTRY_ATTR_KIND, SVN_WC__ENTRIES_ATTR_FILE_STR),
                     (SVN_WC__ENTRY_ATTR_REVISION, Revnum_str 10),
                     (SVN_WC__ENTRY_ATTR_DELETED, Str ''true'')]]]"
    using delete_entry_target_tombstone [where st = ?st and path = "''gone''" and api = ?api_f
            and lib = example_lib and pb = example_root and kind = svn_node_file and revision = 9,
            THEN conjunct1]
    by (simp add: example_api_fields example_lib_fields example_root_def example_state_def example_eb_def
          example_basename_def numeral_2_eq_2)
  have B: "\<exists>es e'. complete_directory example_lib ?api_c ''proj'' True ?s
                    = call (Ev_entries_write ''proj'' es) (svn_wc__entries_write ?api_c es ''proj'') ?s
           \<and> apr_hash_get es ''gone'' = Some e' \<and> entry_deleted e'
           \<and> entry_revision e' = entry_revision ?tomb \<and> entry_kind e' = entry_kind ?tomb"
    using delete_entry_target_tombstone [where s = ?s and name = "''gone''" and api = ?api_c
            and lib = example_lib and dir = "''proj''" and entries = ?entries
            and this_dir = example_dir_entry and e = ?tomb, THEN conjunct2]
    by (simp add: example_api_fields example_lib_fields example_state_def example_eb_def apr_hash_get_def)
  from B have B': "\<exists>es e'. complete_directory example_lib ?api_c ''proj'' True ?s
        = Done () (?s\<lparr>trace := [Ev_entries_write ''proj'' es]\<rparr>)
        \<and> apr_hash_get es ''gone'' = Some e' \<and> entry_deleted e' \<and> entry_revision e' = 10
        \<and> entry_kind e' = svn_node_file"
    by (simp add: call_def perform_def check_def example_api_fields example_state_def)
  from A B' show ?thesis by blast
qed

subsection \<open>Anchor and target\<close>

lemma check_wc_root_cases:
  assumes "svn_wc_entry api path False w = Inr (Some entry)"
  shows "check_wc_root lib api path w =
           (if svn_path_is_empty lib path \<or> parent_entry api (svn_path_dirname lib path) w = None
            then Inr (True, entry_kind entry)
            else case entry_url (the (parent_entry api (svn_path_dirname lib path) w)) of
                   None \<Rightarrow> Inl (Svn_error SVN_ERR_ENTRY_MISSING_URL None)
                 | Some p_url \<Rightarrow>
                     Inr (\<exists>url. entry_url entry = Some url
                               \<and> svn_path_url_add_component lib p_url (svn_path_basename lib path) \<noteq> url,
                          entry_kind entry))"
  using assms
  by (auto simp: check_wc_root_def Let_def split: option.splits)

text \<open>
  Claim C8 says that a path that is a root but does not refer to a directory is split into
  dirname and basename. The resolver splits a root only when its entry is a file: here the
  entry of a root has kind none, and the path is its own anchor.
\<close>

theorem actual_target_kind_counterexample:
  "check_wc_root example_lib
      (example_api\<lparr>svn_wc_entry := \<lambda>p d w.
         if p = ''wc'' then Inr (Some (example_dir_entry\<lparr>entry_kind := svn_node_none\<rparr>)) else Inr None\<rparr>)
      ''wc'' [] = Inr (True, svn_node_none)
   \<and> svn_wc_get_actual_target example_lib
      (example_api\<lparr>svn_wc_entry := \<lambda>p d w.
         if p = ''wc'' then Inr (Some (example_dir_entry\<lparr>entry_kind := svn_node_none\<rparr>)) else Inr None\<rparr>)
      ''wc'' [] = Inr (''wc'', None)
   \<and> (svn_path_dirname example_lib ''wc'', Some (svn_path_basename example_lib ''wc'')) = ([], Some ''wc'')"
  by (simp add: svn_wc_get_actual_target_def check_wc_root_def parent_entry_def Let_def
        example_api_fields example_lib_fields example_dirname_def example_basename_def)

text \<open>
  Claim C8, as amended. For a path that can be opened and closed and has an entry: the
  path is a working-copy root when it is empty or no entry of its parent can be had; a
  parent entry without URL fails with \<open>SVN_ERR_ENTRY_MISSING_URL\<close>; with a parent URL,
  the path is a root exactly when it records a URL that differs from the parent's URL
  joined with its basename. A root whose entry is not a file is its own anchor, with no
  target; every other path is split into dirname (anchor) and basename (target).
\<close>

theorem actual_target_resolution:
  assumes opened: "svn_wc_adm_probe_open api path w = None"
    and entry: "svn_wc_entry api path False w = Inr (Some entry)"
    and closed: "svn_wc_adm_close api path w = None"
  shows "(svn_path_is_empty lib path \<or> parent_entry api (svn_path_dirname lib path) w = None
            \<longrightarrow> check_wc_root lib api path w = Inr (True, entry_kind entry))
       \<and> (\<not> svn_path_is_empty lib path
            \<and> parent_entry api (svn_path_dirname lib path) w = Some p_entry \<and> entry_url p_entry = None
            \<longrightarrow> check_wc_root lib api path w = Inl (Svn_error SVN_ERR_ENTRY_MISSING_URL None)
                \<and> svn_wc_get_actual_target lib api path w = Inl (Svn_error SVN_ERR_ENTRY_MISSING_URL None))
       \<and> (\<not> svn_path_is_empty lib path
            \<and> parent_entry api (svn_path_dirname lib path) w = Some p_entry \<and> entry_url p_entry = Some p_url
            \<longrightarrow> check_wc_root lib api path w
                  = Inr (\<exists>url. entry_url entry = Some url
                              \<and> svn_path_url_add_component lib p_url (svn_path_basename lib path) \<noteq> url,
                         entry_kind entry))
       \<and> (check_wc_root lib api path w = Inr (is_wc_root, kind)
            \<longrightarrow> kind = entry_kind entry
                \<and> svn_wc_get_actual_target lib api path w
                    = Inr (if is_wc_root \<and> kind \<noteq> svn_node_file then (path, None)
                           else (svn_path_dirname lib path, Some (svn_path_basename lib path))))"
  using check_wc_root_cases [OF entry, of lib] opened closed
  by (auto simp: svn_wc_get_actual_target_def split: option.splits if_splits)

theorem actual_target_resolution_witness:
  "svn_wc_get_actual_target example_lib
      (example_api\<lparr>svn_wc_entry := \<lambda>p d w. Inr (Some example_dir_entry)\<rparr>) [] [] = Inr ([], None)
   \<and> svn_wc_get_actual_target example_lib
      (example_api\<lparr>svn_wc_entry := \<lambda>p d w.
         Inr (Some (example_dir_entry\<lparr>entry_url := Some (example_join ''http://host/repo'' p)\<rparr>))\<rparr>)
      ''foo/bar'' [] = Inr (''foo'', Some ''bar'')
   \<and> svn_wc_get_actual_target example_lib
      (example_api\<lparr>svn_wc_entry := \<lambda>p d w.
         Inr (Some (example_dir_entry\<lparr>entry_url := Some (if p = ''foo/bar'' then ''http://other/bar''
                                                             else example_join ''http://host/repo'' p)\<rparr>))\<rparr>)
      ''foo/bar'' [] = Inr (''foo/bar'', None)
   \<and> svn_wc_get_actual_target example_lib
      (example_api\<lparr>svn_wc_entry := \<lambda>p d w.
         Inr (Some (example_dir_entry\<lparr>entry_url := (if p = ''foo'' then None else Some ''http://host/x'')\<rparr>))\<rparr>)
      ''foo/bar'' [] = Inl (Svn_error SVN_ERR_ENTRY_MISSING_URL None)"
proof -
  let ?a1 = "example_api\<lparr>svn_wc_entry := \<lambda>p d w. Inr (Some example_dir_entry)\<rparr>"
  let ?e2 = "\<lambda>p. example_dir_entry\<lparr>entry_url := Some (example_join ''http://host/repo'' p)\<rparr>"
  let ?a2 = "example_api\<lparr>svn_wc_entry := \<lambda>p d w. Inr (Some (?e2 p))\<rparr>"
  let ?e3 = "\<lambda>p. example_dir_entry\<lparr>entry_url := Some (if p = ''foo/bar'' then ''http://other/bar''
                                                             else example_join ''http://host/repo'' p)\<rparr>"
  let ?a3 = "example_api\<lparr>svn_wc_entry := \<lambda>p d w. Inr (Some (?e3 p))\<rparr>"
  let ?e4 = "\<lambda>p. example_dir_entry\<lparr>entry_url := (if p = ''foo'' then None else Some ''http://host/x'')\<rparr>"
  let ?a4 = "example_api\<lparr>svn_wc_entry := \<lambda>p d w. Inr (Some (?e4 p))\<rparr>"
  have dn: "example_dirname ''foo/bar'' = ''foo''" and bn: "example_basename ''foo/bar'' = ''bar''"
    by (simp_all add: example_dirname_def example_basename_def)
  have A: "svn_wc_get_actual_target example_lib ?a1 [] [] = Inr ([], None)"
    using actual_target_resolution [where api = ?a1 and path = "[]" and w = "[]" and entry = example_dir_entry
            and lib = example_lib and is_wc_root = True and kind = svn_node_dir]
    by (simp add: example_api_fields example_lib_fields example_dir_entry_def)
  have B: "svn_wc_get_actual_target example_lib ?a2 ''foo/bar'' [] = Inr (''foo'', Some ''bar'')"
    using actual_target_resolution [where api = ?a2 and path = "''foo/bar''" and w = "[]"
            and entry = "?e2 ''foo/bar''" and lib = example_lib and p_entry = "?e2 ''foo''"
            and p_url = "''http://host/repo/foo''" and is_wc_root = False and kind = svn_node_dir]
    by (simp add: example_api_fields example_lib_fields example_dir_entry_def parent_entry_def dn bn
          example_join_def)
  have C: "svn_wc_get_actual_target example_lib ?a3 ''foo/bar'' [] = Inr (''foo/bar'', None)"
    using actual_target_resolution [where api = ?a3 and path = "''foo/bar''" and w = "[]"
            and entry = "?e3 ''foo/bar''" and lib = example_lib and p_entry = "?e3 ''foo''"
            and p_url = "''http://host/repo/foo''" and is_wc_root = True and kind = svn_node_dir]
    by (simp add: example_api_fields example_lib_fields example_dir_entry_def parent_entry_def dn bn
          example_join_def)
  have D: "svn_wc_get_actual_target example_lib ?a4 ''foo/bar'' [] = Inl (Svn_error SVN_ERR_ENTRY_MISSING_URL None)"
    using actual_target_resolution [where api = ?a4 and path = "''foo/bar''" and w = "[]"
            and entry = "?e4 ''foo/bar''" and lib = example_lib and p_entry = "?e4 ''foo''"]
    by (simp add: example_api_fields example_lib_fields example_dir_entry_def parent_entry_def dn bn)
  from A B C D show ?thesis by simp
qed

subsection \<open>Reference counts of the bump records\<close>

text \<open>
  \<open>complete_directory\<close> leaves the bump records alone, and is counted only by the event
  that \<open>maybe_bump_dir_info\<close> records before it calls it.
\<close>

lemma completions_append:
  "completions (st\<lparr>trace := trace st @ evs\<rparr>) i
     = completions st i + count_list evs (Ev_complete_directory i)"
  by (simp add: completions_def)

































lemma make_dir_baton_bumps:
  assumes "make_dir_baton lib api path pb added st = Done db st1"
  shows "new_bump_info (db_path db) (map_option db_bump_info pb) (bump_infos st)
           = Some (db_bump_info db, bump_infos st1)"
  using assms
  by (auto simp: make_dir_baton_def dir_new_URL_def url_add_component_def
        SVN_ERR_def Let_def split: option.splits if_splits)

lemma make_file_baton_bumps:
  assumes "make_file_baton lib api pb path adding st = Done fb st1"
  shows "add_referer (db_bump_info pb) (bump_infos st) = Some (bump_infos st1)
         \<and> fb_bump_info fb = db_bump_info pb"
  using assms
  by (auto simp: make_file_baton_def url_add_component_def
        SVN_ERR_def Let_def split: option.splits if_splits)




subsection \<open>The externals recorded by \<open>close_directory\<close>\<close>

























end
